theory Spec2Isabelle
  imports Complex_Main "HOL-Library.Multiset"
begin

section \<open>Python strings\<close>

text \<open>
  A Python \<open>str\<close> is modelled as a \<open>string\<close> holding its UTF-8 bytes. The separators of
  \<open>build_city_tokens\<close> that lie outside ASCII (en dash, em dash) are three bytes each, so
  splitting and containment work on byte sequences; UTF-8 is self-synchronising, hence
  containment of encoded strings is containment of the code-point strings.
  \<open>str.lower\<close>, \<open>str.upper\<close> and \<open>str.strip\<close> are modelled on the ASCII range: bytes
  above 127 are left as they are.
\<close>

definition is_space :: "char \<Rightarrow> bool" where
  "is_space c = (let n = (of_char c :: nat) in (9 \<le> n \<and> n \<le> 13) \<or> (28 \<le> n \<and> n \<le> 32))"

definition str_strip :: "string \<Rightarrow> string" where
  "str_strip s = rev (dropWhile is_space (rev (dropWhile is_space s)))"

definition lower_char :: "char \<Rightarrow> char" where
  "lower_char c = (let n = (of_char c :: nat) in if 65 \<le> n \<and> n \<le> 90 then char_of (n + 32) else c)"

definition upper_char :: "char \<Rightarrow> char" where
  "upper_char c = (let n = (of_char c :: nat) in if 97 \<le> n \<and> n \<le> 122 then char_of (n - 32) else c)"

definition str_lower :: "string \<Rightarrow> string" where
  "str_lower s = map lower_char s"

definition str_upper :: "string \<Rightarrow> string" where
  "str_upper s = map upper_char s"

text \<open>\<open>starts_with s p\<close> is \<open>s.startswith(p)\<close>; \<open>str_in sub s\<close> is \<open>sub in s\<close>.\<close>

fun starts_with :: "string \<Rightarrow> string \<Rightarrow> bool" where
  "starts_with s [] = True"
| "starts_with [] (p # ps) = False"
| "starts_with (c # cs) (p # ps) = (c = p \<and> starts_with cs ps)"

fun str_in :: "string \<Rightarrow> string \<Rightarrow> bool" where
  "str_in sub [] = (sub = [])"
| "str_in sub (c # cs) = (starts_with (c # cs) sub \<or> str_in sub cs)"

text \<open>
  \<open>str_split s sep\<close> is \<open>s.split(sep)\<close> for a non-empty separator: a left-to-right scan
  cutting at each non-overlapping occurrence. (Python raises \<open>ValueError\<close> on an empty
  separator; the source only splits on fixed non-empty ones.)
\<close>

fun split_from :: "string \<Rightarrow> string \<Rightarrow> string \<Rightarrow> string list" where
  "split_from sep acc [] = [rev acc]"
| "split_from sep acc (c # cs) =
     (if sep \<noteq> [] \<and> starts_with (c # cs) sep
      then rev acc # split_from sep [] (drop (length sep - 1) cs)
      else split_from sep (c # acc) cs)"

definition str_split :: "string \<Rightarrow> string \<Rightarrow> string list" where
  "str_split s sep = split_from sep [] s"

text \<open>\<open>py_or a b\<close> is \<open>a or b\<close> on strings: the first operand unless it is empty.\<close>

definition py_or :: "string \<Rightarrow> string \<Rightarrow> string" where
  "py_or a b = (if a \<noteq> [] then a else b)"

text \<open>\<open>list(dict.fromkeys(xs))\<close>: duplicates removed, first occurrences kept in order.\<close>

definition dedup :: "'a list \<Rightarrow> 'a list" where
  "dedup xs = rev (remdups (rev xs))"

section \<open>City / CBSA matching utilities (geo_utils.py)\<close>

definition parse_city_state :: "string \<Rightarrow> string \<Rightarrow> string \<times> string" where
  "parse_city_state city city_full =
     (let raw = py_or city_full (py_or city []);
          parts = map str_strip (str_split raw '','')
      in case parts of
           [] \<Rightarrow> ([], [])
         | [p0] \<Rightarrow> (str_strip p0, [])
         | p0 # p1 # _ \<Rightarrow>
             (str_strip p0, if p1 \<noteq> [] then take 2 (str_upper (str_strip p1)) else []))"

definition en_dash :: string where
  "en_dash = [char_of (226::nat), char_of (128::nat), char_of (147::nat)]"

definition em_dash :: string where
  "em_dash = [char_of (226::nat), char_of (128::nat), char_of (148::nat)]"

definition build_city_tokens :: "string \<Rightarrow> string list" where
  "build_city_tokens city_base =
     (let cb = str_lower (str_strip city_base)
      in if cb = [] then []
         else dedup (foldl
                (\<lambda>tokens sep.
                   if str_in sep cb
                   then tokens @ filter (\<lambda>t. t \<noteq> []) (map str_strip (str_split cb sep))
                   else tokens)
                [cb] [''-'', en_dash, em_dash]))"

definition MANUAL_CBSA_NAME_MAP :: "(string \<times> string) list" where
  "MANUAL_CBSA_NAME_MAP = [(''dc_metro'', ''Washington-Arlington-Alexandria, DC-VA-MD-WV'')]"

definition resolve_manual_cbsa_name :: "string \<Rightarrow> string \<Rightarrow> string option" where
  "resolve_manual_cbsa_name city city_full =
     (let key = str_lower (str_strip (py_or city_full (py_or city [])))
      in case map_of MANUAL_CBSA_NAME_MAP key of
           Some n \<Rightarrow> Some n
         | None \<Rightarrow> if str_in ''boston'' key then Some ''Boston-Cambridge-Newton, MA-NH'' else None)"

text \<open>
  A row of the CBSA boundary table: the columns the matcher reads. The centroid columns
  are \<open>None\<close> where geopandas yields NaN (an empty or missing geometry). Coordinates
  range over any linearly ordered type with its own \<open>+\<close>, \<open>-\<close>, \<open>*\<close>: no law of arithmetic
  is assumed, so rounding operations are covered.
\<close>

record ('g, 'a) boundary =
  NAME :: string
  geometry :: 'g
  centroid_lat :: "'a option"
  centroid_lon :: "'a option"

definition name_lower :: "('g, 'a) boundary \<Rightarrow> string" where
  "name_lower b = str_lower (NAME b)"

definition name_upper :: "('g, 'a) boundary \<Rightarrow> string" where
  "name_upper b = str_upper (NAME b)"

text \<open>
  A row of the aggregated city table. \<open>city_full\<close> is \<open>None\<close> when the column is absent
  (\<open>row.get("city_full", city)\<close>); \<open>lat\<close> and \<open>lon\<close> are \<open>None\<close> when the value is missing
  or not finite (\<open>np.isfinite\<close> fails).
\<close>

record 'a city_row =
  city :: string
  city_full :: "string option"
  avg_metric_value :: "real option"
  lat :: "'a option"
  lon :: "'a option"

definition row_city_full :: "'a city_row \<Rightarrow> string" where
  "row_city_full row = str_strip (case city_full row of None \<Rightarrow> city row | Some s \<Rightarrow> s)"

datatype error = ReError | IndexError | IntCastingNaNError

text \<open>
  \<open>Series.str.contains(pat)\<close> compiles \<open>pat\<close> as a regular expression and searches each
  name. The matcher takes that operation as the parameter \<open>rx\<close>: \<open>rx pat\<close> is \<open>None\<close> when
  compiling raises \<open>re.error\<close>, and otherwise the search predicate. For a pattern without
  regular-expression metacharacters the search is literal containment, \<open>literal_rx\<close>.
\<close>

type_synonym regex = "string \<Rightarrow> (string \<Rightarrow> bool) option"

definition literal_rx :: regex where
  "literal_rx pat = Some (str_in pat)"

definition iloc0 :: "'b list \<Rightarrow> error + 'b" where
  "iloc0 xs = (case xs of [] \<Rightarrow> Inl IndexError | x # _ \<Rightarrow> Inr x)"

definition manual_matches :: "('g, 'a) boundary list \<Rightarrow> string \<Rightarrow> string \<Rightarrow> ('g, 'a) boundary list" where
  "manual_matches bs c cf =
     (case resolve_manual_cbsa_name c cf of
        None \<Rightarrow> []
      | Some manual_name \<Rightarrow>
          if manual_name \<noteq> [] then filter (\<lambda>b. NAME b = manual_name) bs else [])"

definition exact_matches :: "('g, 'a) boundary list \<Rightarrow> string \<Rightarrow> ('g, 'a) boundary list" where
  "exact_matches bs city_full_lower = filter (\<lambda>b. name_lower b = city_full_lower) bs"

definition contains_matches ::
  "regex \<Rightarrow> ('g, 'a) boundary list \<Rightarrow> string \<Rightarrow> error + ('g, 'a) boundary list" where
  "contains_matches rx bs city_full_lower =
     (case rx city_full_lower of
        None \<Rightarrow> Inl ReError
      | Some m \<Rightarrow> Inr (filter (\<lambda>b. m (name_lower b)) bs))"

definition base_mask :: "string list \<Rightarrow> ('g, 'a) boundary \<Rightarrow> bool" where
  "base_mask tokens b = list_ex (\<lambda>t. str_in t (name_lower b)) tokens"

definition fuzzy_matches ::
  "regex \<Rightarrow> ('g, 'a) boundary list \<Rightarrow> string \<Rightarrow> string \<Rightarrow> error + ('g, 'a) boundary list" where
  "fuzzy_matches rx bs c cf =
     (case parse_city_state c cf of (city_base, state_abbrev) \<Rightarrow>
        let tokens = build_city_tokens city_base
        in if tokens = [] then Inr []
           else if filter (base_mask tokens) bs = [] then Inr []
           else if state_abbrev \<noteq> [] then
             (case rx state_abbrev of
                None \<Rightarrow> Inl ReError
              | Some m \<Rightarrow>
                  let mask = (\<lambda>b. base_mask tokens b \<and> m (name_upper b))
                  in if filter mask bs \<noteq> [] then Inr (filter mask bs) else Inr [])
           else Inr (filter (base_mask tokens) bs))"

definition string_candidates ::
  "regex \<Rightarrow> ('g, 'a) boundary list \<Rightarrow> string \<Rightarrow> string \<Rightarrow> error + ('g, 'a) boundary list" where
  "string_candidates rx bs c cf =
     (let city_full_lower = str_lower cf;
          exact = exact_matches bs city_full_lower
      in case (if exact = [] then contains_matches rx bs city_full_lower else Inr exact) of
           Inl e \<Rightarrow> Inl e
         | Inr candidates \<Rightarrow>
             if candidates = [] then fuzzy_matches rx bs c cf else Inr candidates)"

text \<open>
  \<open>dist2\<close> is the column \<open>dlat * dlat + dlon * dlon\<close>, NaN (\<open>None\<close>) where the centroid is.
  \<open>sort_values\<close> is \<open>DataFrame.sort_values\<close> on that column: rows with a value in
  ascending order, then the rows whose value is NaN. Rows of equal value are kept in their
  order here; the properties proved below do not depend on that order.
\<close>

definition dist2 :: "'a \<Rightarrow> 'a \<Rightarrow> ('g, 'a::{plus,minus,times}) boundary \<Rightarrow> 'a option" where
  "dist2 lat0 lon0 b =
     (case (centroid_lat b, centroid_lon b) of
        (Some la, Some lo) \<Rightarrow> Some ((la - lat0) * (la - lat0) + (lo - lon0) * (lo - lon0))
      | _ \<Rightarrow> None)"

definition sort_values :: "('b \<Rightarrow> 'a::linorder option) \<Rightarrow> 'b list \<Rightarrow> 'b list" where
  "sort_values k xs =
     sort_key (\<lambda>x. the (k x)) (filter (\<lambda>x. k x \<noteq> None) xs) @ filter (\<lambda>x. k x = None) xs"

definition pick_best ::
  "'a city_row \<Rightarrow> ('g, 'a::{plus,minus,times,linorder}) boundary list \<Rightarrow> error + ('g, 'a) boundary" where
  "pick_best row candidates =
     (case (lat row, lon row) of
        (Some lat0, Some lon0) \<Rightarrow>
          if length candidates > 1
          then iloc0 (sort_values (dist2 lat0 lon0) candidates)
          else iloc0 candidates
      | _ \<Rightarrow> iloc0 candidates)"

text \<open>
  One iteration of the loop of \<open>build_city_cbsa_polygons\<close>: \<open>Inr None\<close> is \<open>continue\<close>
  without a record, \<open>Inr (Some b)\<close> appends a record with the geometry of \<open>b\<close>.
\<close>

definition match_row ::
  "regex \<Rightarrow> ('g, 'a::{plus,minus,times,linorder}) boundary list \<Rightarrow> 'a city_row
     \<Rightarrow> error + ('g, 'a) boundary option" where
  "match_row rx bs row =
     (let c = city row; cf = row_city_full row
      in if cf = [] then Inr None
         else case manual_matches bs c cf of
                b # _ \<Rightarrow> Inr (Some b)
              | [] \<Rightarrow>
                 (case string_candidates rx bs c cf of
                    Inl e \<Rightarrow> Inl e
                  | Inr candidates \<Rightarrow>
                      if candidates = [] then Inr None
                      else (case pick_best row candidates of
                              Inl e \<Rightarrow> Inl e
                            | Inr best \<Rightarrow> Inr (Some best))))"

section \<open>Metric utilities (config_data.py)\<close>

text \<open>
  A float column is a \<open>real option\<close> column: \<open>None\<close> is NaN (a missing value) and a
  present value is the real number the double stands for.

  \<open>rint\<close> rounds to the nearest integer, halves going to the even neighbour. \<open>fl\<close> is
  the rounding of IEEE 754 binary64 arithmetic: the nearest number with a significand of
  53 bits (of the spacing \<open>2 powi (- 1074)\<close> in the subnormal range), ties going to the
  even significand; every float64 operation returns \<open>fl\<close> of the exact result. Overflow
  is written separately (\<open>fl_inf\<close>) where a result can be that large.

  \<open>Series.round(1)\<close> is \<open>np.round\<close>: the value times ten, \<open>rint\<close>, then divided by ten,
  each of the two a float64 operation.
\<close>

definition rint :: "real \<Rightarrow> int" where
  "rint x =
     (let f = \<lfloor>x\<rfloor>; d = x - of_int f
      in if d < 1 / 2 then f else if d > 1 / 2 then f + 1 else if even f then f else f + 1)"

definition fl :: "real \<Rightarrow> real" where
  "fl x =
     (if x = 0 then 0
      else let e = max (\<lfloor>log 2 \<bar>x\<bar>\<rfloor> - 52) (- 1074)
           in of_int (rint (x / 2 powi e)) * 2 powi e)"

definition np_round1 :: "real \<Rightarrow> real" where
  "np_round1 x = fl (of_int (rint (fl (x * 10))) / 10)"

subsection \<open>compute_pti\<close>

record house_row =
  median_sale_price :: "real option"
  per_capita_income :: "real option"

definition valid_price_income :: "'m house_row_scheme \<Rightarrow> bool" where
  "valid_price_income r =
     (case (median_sale_price r, per_capita_income r) of
        (Some p, Some i) \<Rightarrow> p > 0 \<and> i \<ge> 5000
      | _ \<Rightarrow> False)"

definition price_over_income :: "'m house_row_scheme \<Rightarrow> real option" where
  "price_over_income r =
     (case (median_sale_price r, per_capita_income r) of
        (Some p, Some i) \<Rightarrow> Some (p / i)
      | _ \<Rightarrow> None)"

definition mask_outliers :: "real option \<Rightarrow> real option" where
  "mask_outliers pti =
     (case pti of
        None \<Rightarrow> None
      | Some x \<Rightarrow> if x < 0.5 \<or> x > 50 then None else Some x)"

text \<open>The result pairs each kept row with its \<open>PTI\<close> column.\<close>

definition compute_pti :: "'m house_row_scheme list \<Rightarrow> ('m house_row_scheme \<times> real option) list" where
  "compute_pti df =
     (let df1 = filter valid_price_income df;
          df2 = map (\<lambda>r. (r, price_over_income r)) df1;
          df3 = map (\<lambda>(r, pti). (r, mask_outliers pti)) df2
      in filter (\<lambda>(r, pti). pti \<noteq> None) df3)"

subsection \<open>compute_rankings\<close>

text \<open>
  \<open>Series.rank(ascending=False, method="min")\<close>: the values that are present are put in
  descending order and numbered from one; a value gets the number of its first occurrence.
  A NaN value gets the rank NaN, on which \<open>astype(int)\<close> raises.
\<close>

definition rank_desc_min :: "real list \<Rightarrow> real \<Rightarrow> nat" where
  "rank_desc_min vs v = Suc (length (takeWhile (\<lambda>w. w \<noteq> v) (rev (sort vs))))"

definition present :: "real option list \<Rightarrow> real list" where
  "present col = concat (map (\<lambda>v. case v of None \<Rightarrow> [] | Some x \<Rightarrow> [x]) col)"

record 'r ranked =
  row :: 'r
  rank :: nat
  rank_total :: nat
  percentile :: real

text \<open>
  \<open>((rank_total - rank + 1) / rank_total * 100).round(1)\<close>: the difference and the sum are
  integer arithmetic, the quotient and the product are float64 operations.
\<close>

definition percentile_of :: "nat \<Rightarrow> nat \<Rightarrow> real" where
  "percentile_of n rk =
     np_round1 (fl (fl (of_int (int n - int rk + 1) / of_int (int n)) * 100))"

definition compute_rankings :: "('r \<Rightarrow> real option) \<Rightarrow> 'r list \<Rightarrow> error + 'r ranked list" where
  "compute_rankings value_col df =
     (let col = map value_col df
      in if list_ex (\<lambda>v. v = None) col then Inl IntCastingNaNError
         else Inr (map (\<lambda>r. \<lparr>row = r,
                               rank = rank_desc_min (present col) (the (value_col r)),
                               rank_total = length df,
                               percentile = percentile_of (length df)
                                              (rank_desc_min (present col) (the (value_col r)))\<rparr>) df))"

subsection \<open>compute_yoy\<close>

text \<open>
  A float64 result is a number, an infinity (on overflow or on division by zero; its
  sign is not modelled) or NaN. The year-over-year columns are computed from the two
  group means, which are numbers or NaN.
\<close>

datatype fval = NaN | Infinite | Fin real

definition fl_inf :: "real \<Rightarrow> fval" where
  "fl_inf x = (if 2 ^ 1024 \<le> \<bar>fl x\<bar> then Infinite else Fin (fl x))"

definition fsub :: "real option \<Rightarrow> real option \<Rightarrow> fval" where
  "fsub a b = (case (a, b) of (Some x, Some y) \<Rightarrow> fl_inf (x - y) | _ \<Rightarrow> NaN)"

definition fdiv :: "fval \<Rightarrow> real option \<Rightarrow> fval" where
  "fdiv a b =
     (case (a, b) of
        (Fin x, Some y) \<Rightarrow> if y \<noteq> 0 then fl_inf (x / y) else if x \<noteq> 0 then Infinite else NaN
      | (Infinite, Some y) \<Rightarrow> Infinite
      | _ \<Rightarrow> NaN)"

definition fmul100 :: "fval \<Rightarrow> fval" where
  "fmul100 v = (case v of Fin x \<Rightarrow> fl_inf (x * 100) | Infinite \<Rightarrow> Infinite | NaN \<Rightarrow> NaN)"

definition fround1 :: "fval \<Rightarrow> fval" where
  "fround1 v =
     (case v of
        Fin x \<Rightarrow> (case fl_inf (x * 10) of Fin m \<Rightarrow> Fin (fl (of_int (rint m) / 10)) | w \<Rightarrow> w)
      | Infinite \<Rightarrow> Infinite
      | NaN \<Rightarrow> NaN)"

text \<open>
  The mean of a group skips NaN; a group with no present value has the mean NaN. The
  float64 mean of the present values, \<open>fmean\<close>, is a parameter: pandas sums the group with
  compensated summation and divides by the count, and which roundings that takes plays
  no part in what is proved. On a group with a single value it returns that value.
\<close>

definition mean :: "(real list \<Rightarrow> real) \<Rightarrow> real option list \<Rightarrow> real option" where
  "mean fmean col = (let xs = present col in if xs = [] then None else Some (fmean xs))"

text \<open>
  An instance of the parameter for the examples below, whose groups hold one value each:
  the exact mean rounded once. On a group with a single double it returns that double,
  as the summation of pandas does.
\<close>

definition mean_rounded :: "real list \<Rightarrow> real" where
  "mean_rounded xs = fl (sum_list xs / real (length xs))"

text \<open>
  \<open>groupby(group_cols, as_index=False).agg({value_col: "mean"})\<close>: one row per key that
  occurs, in ascending key order.
\<close>

definition groupby_mean ::
  "(real list \<Rightarrow> real) \<Rightarrow> ('r \<Rightarrow> 'k::linorder) \<Rightarrow> ('r \<Rightarrow> real option) \<Rightarrow> 'r list
     \<Rightarrow> ('k \<times> real option) list" where
  "groupby_mean fmean group_cols value_col df =
     map (\<lambda>k. (k, mean fmean (map value_col (filter (\<lambda>r. group_cols r = k) df))))
         (sort (remdups (map group_cols df)))"

record 'k yoy_row =
  group_key :: 'k
  value_cur :: "real option"
  value_prev :: "real option"
  yoy_change :: fval
  yoy_pct :: fval

definition merge_left :: "('k \<times> real option) list \<Rightarrow> ('k \<times> real option) list \<Rightarrow> ('k \<times> real option \<times> real option) list" where
  "merge_left agg_current agg_prev =
     map (\<lambda>(k, v). (k, v, case map_of agg_prev k of None \<Rightarrow> None | Some p \<Rightarrow> p)) agg_current"

text \<open>
  The result is either the current-year rows themselves, each with both new columns NaN
  (no row of the previous year at all), or the merged table of group means.
\<close>

datatype ('r, 'k) yoy_result = No_prev "('r \<times> fval \<times> fval) list" | Merged "'k yoy_row list"

definition compute_yoy ::
  "(real list \<Rightarrow> real) \<Rightarrow> ('r \<Rightarrow> int) \<Rightarrow> 'r list \<Rightarrow> int \<Rightarrow> ('r \<Rightarrow> 'k::linorder)
     \<Rightarrow> ('r \<Rightarrow> real option) \<Rightarrow> ('r, 'k) yoy_result" where
  "compute_yoy fmean year df_all current_year group_cols value_col =
     (let prev_year = current_year - 1;
          df_current = filter (\<lambda>r. year r = current_year) df_all;
          df_prev = filter (\<lambda>r. year r = prev_year) df_all
      in if df_prev = [] then No_prev (map (\<lambda>r. (r, NaN, NaN)) df_current)
         else
           let agg_current = groupby_mean fmean group_cols value_col df_current;
               agg_prev = groupby_mean fmean group_cols value_col df_prev;
               merged = merge_left agg_current agg_prev
           in Merged (map (\<lambda>(k, v, p).
                 \<lparr>group_key = k, value_cur = v, value_prev = p,
                  yoy_change = fsub v p,
                  yoy_pct = fround1 (fmul100 (fdiv (fsub v p) p))\<rparr>) merged))"

section \<open>The metro table (geo_utils.py)\<close>

record 'g metro_record =
  rec_city :: string
  rec_city_full :: string
  metro_name :: string
  rec_avg_metric_value :: "real option"
  rec_geometry :: 'g

fun build_records ::
  "regex \<Rightarrow> ('g, 'a::{plus,minus,times,linorder}) boundary list \<Rightarrow> 'a city_row list
     \<Rightarrow> error + 'g metro_record list" where
  "build_records rx bs [] = Inr []"
| "build_records rx bs (r # rs) =
     (case match_row rx bs r of
        Inl e \<Rightarrow> Inl e
      | Inr None \<Rightarrow> build_records rx bs rs
      | Inr (Some best) \<Rightarrow>
          (case build_records rx bs rs of
             Inl e \<Rightarrow> Inl e
           | Inr records \<Rightarrow>
               Inr (\<lparr>rec_city = city r, rec_city_full = row_city_full r,
                     metro_name = row_city_full r,
                     rec_avg_metric_value = avg_metric_value r,
                     rec_geometry = geometry best\<rparr> # records)))"

definition build_city_cbsa_polygons ::
  "regex \<Rightarrow> ('g, 'a::{plus,minus,times,linorder}) boundary list \<Rightarrow> 'a city_row list
     \<Rightarrow> error + 'g metro_record ranked list" where
  "build_city_cbsa_polygons rx cbsa_gdf df_city =
     (case build_records rx cbsa_gdf df_city of
        Inl e \<Rightarrow> Inl e
      | Inr records \<Rightarrow>
          if records = [] then Inr [] else compute_rankings rec_avg_metric_value records)"

section \<open>Metro to ZIP polygons (geo_utils.py, app.py)\<close>

record 'g zcta_shape =
  zcta_zip_code_str :: string
  zcta_geometry :: 'g

record zip_metric =
  zm_city :: string
  zip_code_str :: string
  metric_value :: "real option"
  zm_city_full :: string

text \<open>A row of the merged table: the shape's columns and the metric's.\<close>

record 'g zip_polygon =
  zp_zip_code_str :: string
  zp_geometry :: 'g
  zp_metric_value :: "real option"
  zp_city_full :: string

definition merge_inner ::
  "'g zcta_shape list \<Rightarrow> (string \<times> real option \<times> string) list \<Rightarrow> 'g zip_polygon list" where
  "merge_inner shapes small =
     concat (map (\<lambda>s. map (\<lambda>(z, m, cf).
                \<lparr>zp_zip_code_str = z, zp_geometry = zcta_geometry s,
                 zp_metric_value = m, zp_city_full = cf\<rparr>)
              (filter (\<lambda>(z, m, cf). z = zcta_zip_code_str s) small)) shapes)"

definition get_zip_polygons_for_metro ::
  "string \<Rightarrow> 'g zcta_shape list \<Rightarrow> 'm zip_metric_scheme list
     \<Rightarrow> 'm zip_metric_scheme list \<times> 'g zip_polygon list" where
  "get_zip_polygons_for_metro selected_city zcta_shapes df_zip_metric =
     (let zip_df_city = filter (\<lambda>r. metric_value r \<noteq> None)
                          (filter (\<lambda>r. zm_city r = selected_city) df_zip_metric)
      in if zip_df_city = [] then (zip_df_city, [])
         else
           let zip_df_small = dedup (map (\<lambda>r. (zip_code_str r, metric_value r, zm_city_full r)) zip_df_city)
           in (zip_df_city, merge_inner zcta_shapes zip_df_small))"

text \<open>
  The ZIP view of app.py: \<open>None\<close> is the warning that no ZIP data is available, otherwise
  the metric rows that have a value and a polygon.
\<close>

definition zip_view_rows ::
  "'m zip_metric_scheme list \<Rightarrow> 'g zip_polygon list \<Rightarrow> 'm zip_metric_scheme list option" where
  "zip_view_rows zip_df_city gdf_merge =
     (if gdf_merge = [] \<or> zip_df_city = [] then None
      else
        let zip_df_city1 = filter (\<lambda>r. metric_value r \<noteq> None) zip_df_city;
            valid_zips = remdups (map zp_zip_code_str gdf_merge)
        in Some (filter (\<lambda>r. zip_code_str r \<in> set valid_zips) zip_df_city1))"

section \<open>Evaluating the float64 rounding\<close>

text \<open>
  Between two neighbouring powers of two the exponent of \<open>fl\<close> is known, and the rounding
  is a rounding of integers.
\<close>

lemma floor_log2_eq:
  assumes "2 powi k \<le> x" "x < 2 powi (k + 1)"
  shows "\<lfloor>log 2 x\<rfloor> = k"
proof -
  have pos: "0 < x" using assms(1) by (smt (verit) zero_less_power_int)
  have p1: "2 powr (real_of_int k) = (2::real) powi k"
    by (simp add: powr_real_of_int')
  have p2: "2 powr (real_of_int (k + 1)) = (2::real) powi (k + 1)"
    using powr_real_of_int'[of 2 "k + 1"] by simp
  have "real_of_int k \<le> log 2 x"
    using assms(1) pos by (simp add: le_log_iff p1)
  moreover have "log 2 x < real_of_int (k + 1)"
    using assms(2) pos by (simp only: log_less_iff p2)
  ultimately show ?thesis by (simp add: floor_eq_iff)
qed

lemma fl_eval:
  assumes "2 powi k \<le> \<bar>x\<bar>" "\<bar>x\<bar> < 2 powi (k + 1)" "- 1022 \<le> k" "k \<le> 52"
  shows "fl x = of_int (rint (x * 2 ^ nat (52 - k))) / 2 ^ nat (52 - k)"
proof -
  have "x \<noteq> 0" using assms(1) by (smt (verit) zero_less_power_int)
  moreover have "max (\<lfloor>log 2 \<bar>x\<bar>\<rfloor> - 52) (- 1074) = k - 52"
    using floor_log2_eq[OF assms(1,2)] assms(3) by simp
  moreover have "(2::real) powi (k - 52) = 1 / 2 ^ nat (52 - k)"
    using assms(4) by (simp add: power_int_def field_simps)
  ultimately show ?thesis by (simp add: fl_def Let_def)
qed

lemma fl_eval_pos:
  assumes "2 ^ j \<le> \<bar>x\<bar>" "\<bar>x\<bar> < 2 ^ (j + 1)" "j \<le> 52"
  shows "fl x = of_int (rint (x * 2 ^ (52 - j))) / 2 ^ (52 - j)"
proof -
  have "fl x = of_int (rint (x * 2 ^ nat (52 - int j))) / 2 ^ nat (52 - int j)"
    by (rule fl_eval) (use assms in \<open>simp_all add: power_int_def nat_add_distrib\<close>)
  moreover have "nat (52 - int j) = 52 - j" by simp
  ultimately show ?thesis by simp
qed

lemma fl_eval_neg:
  assumes "1 \<le> \<bar>x\<bar> * 2 ^ j" "\<bar>x\<bar> * 2 ^ j < 2" "j \<le> 1022"
  shows "fl x = of_int (rint (x * 2 ^ (52 + j))) / 2 ^ (52 + j)"
proof -
  have p: "(2::real) powi (- int j) = 1 / 2 ^ j"
    by (simp add: power_int_minus field_simps)
  have q: "(2::real) powi (- int j + 1) = 2 / 2 ^ j"
    using power_int_add[of "2::real" "- int j" 1] p by simp
  have a: "2 powi (- int j) \<le> \<bar>x\<bar>"
    unfolding p using assms(1) by (simp add: field_simps)
  have b: "\<bar>x\<bar> < 2 powi (- int j + 1)"
    unfolding q using assms(2) by (simp add: field_simps)
  have "fl x = of_int (rint (x * 2 ^ nat (52 - (- int j)))) / 2 ^ nat (52 - (- int j))"
    by (rule fl_eval[OF a b]) (use assms(3) in simp_all)
  moreover have "nat (52 - (- int j)) = 52 + j" by simp
  ultimately show ?thesis by simp
qed

lemma fl_zero: "fl 0 = 0"
  by (simp add: fl_def)

lemma rint_zero: "rint 0 = 0"
  by (simp add: rint_def)

section \<open>Properties of the metric utilities\<close>

subsection \<open>compute_pti\<close>

text \<open>
  C5 (amended). Every row in the output of \<open>compute_pti\<close> is a row of the input with a
  median sale price above zero and a per-capita income of at least 5000; its PTI is the
  price divided by the income and lies in the closed range from 0.5 to 50. A row that
  violates one of these conditions is therefore absent from the output.
\<close>

theorem compute_pti_range:
  assumes "(r, pti) \<in> set (compute_pti df)"
  shows "r \<in> set df \<and>
         (\<exists>p i. median_sale_price r = Some p \<and> per_capita_income r = Some i \<and>
                0 < p \<and> 5000 \<le> i \<and> pti = Some (p / i) \<and> 1 / 2 \<le> p / i \<and> p / i \<le> 50)"
  using assms
  by (auto simp: compute_pti_def valid_price_income_def price_over_income_def mask_outliers_def
           split: option.splits if_splits)

text \<open>A price of 300000 on an income of 60000 is kept with the PTI 5; a price of 100 is not.\<close>

theorem compute_pti_range_witness:
  "(\<lparr>median_sale_price = Some 300000, per_capita_income = Some 60000\<rparr>, Some 5)
     \<in> set (compute_pti [\<lparr>median_sale_price = Some 300000, per_capita_income = Some 60000\<rparr>,
                          \<lparr>median_sale_price = Some 100, per_capita_income = Some 60000\<rparr>]) \<and>
   (\<exists>p i. Some (300000::real) = Some p \<and> Some (60000::real) = Some i \<and>
          0 < p \<and> 5000 \<le> i \<and> Some (5::real) = Some (p / i) \<and> 1 / 2 \<le> p / i \<and> p / i \<le> 50)"
proof -
  have m: "(\<lparr>median_sale_price = Some 300000, per_capita_income = Some 60000\<rparr>, Some 5)
     \<in> set (compute_pti [\<lparr>median_sale_price = Some 300000, per_capita_income = Some 60000\<rparr>,
                          \<lparr>median_sale_price = Some 100, per_capita_income = Some 60000\<rparr>])"
    by (simp add: compute_pti_def valid_price_income_def price_over_income_def mask_outliers_def)
  from compute_pti_range[OF m] m show ?thesis by simp
qed

text \<open>
  C5 as stated fails at the lower bound: a price of 2500 on an income of 5000 has the PTI
  0.5 exactly, which is not above 0.5, and the row is in the output.
\<close>

theorem compute_pti_half_counterexample:
  "compute_pti [\<lparr>median_sale_price = Some 2500, per_capita_income = Some 5000\<rparr>]
     = [(\<lparr>median_sale_price = Some 2500, per_capita_income = Some 5000\<rparr>, Some (1 / 2))]
   \<and> \<not> ((1 / 2 :: real) < 2500 / 5000)"
  by (simp add: compute_pti_def valid_price_income_def price_over_income_def mask_outliers_def
           del: not_None_eq)

subsection \<open>compute_rankings\<close>

lemma takeWhile_desc:
  "sorted_wrt (\<ge>) ys \<Longrightarrow> v \<in> set ys \<Longrightarrow> takeWhile (\<lambda>w. w \<noteq> v) ys = filter (\<lambda>w. w > v) (ys :: real list)"
proof (induction ys)
  case Nil
  then show ?case by simp
next
  case (Cons y ys)
  show ?case
  proof (cases "y = v")
    case True
    with Cons.prems have "\<forall>w\<in>set ys. \<not> w > v" by auto
    then have "filter (\<lambda>w. w > v) ys = []" by (simp add: filter_empty_conv)
    with True show ?thesis by simp
  next
    case False
    with Cons.prems have "v \<in> set ys" "v \<le> y" by auto
    with False Cons show ?thesis by auto
  qed
qed

lemma length_filter_mset: "mset xs = mset ys \<Longrightarrow> length (filter P xs) = length (filter P ys)"
  by (metis mset_filter size_mset)

lemma rank_desc_min_count:
  assumes "v \<in> set vs"
  shows "rank_desc_min vs v = Suc (length (filter (\<lambda>w. w > v) vs))"
proof -
  have s: "sorted_wrt (\<ge>) (rev (sort vs))"
    by (simp add: sorted_wrt_rev)
  have "v \<in> set (rev (sort vs))" using assms by simp
  from takeWhile_desc[OF s this]
  have "length (takeWhile (\<lambda>w. w \<noteq> v) (rev (sort vs))) = length (filter (\<lambda>w. w > v) (rev (sort vs)))"
    by simp
  also have "\<dots> = length (filter (\<lambda>w. w > v) vs)"
    by (rule length_filter_mset) simp
  finally show ?thesis by (simp add: rank_desc_min_def)
qed

lemma sort_mset_cong: "mset vs = mset vs' \<Longrightarrow> sort vs = sort (vs' :: real list)"
  by (rule properties_for_sort) simp_all

lemma rank_desc_min_mset: "mset vs = mset vs' \<Longrightarrow> rank_desc_min vs v = rank_desc_min vs' v"
  unfolding rank_desc_min_def using sort_mset_cong[of vs vs'] by simp



lemma present_all:
  "\<forall>r\<in>set df. value_col r \<noteq> None \<Longrightarrow> present (map value_col df) = map (\<lambda>r. the (value_col r)) df"
  by (induction df) (auto simp: present_def)

lemma list_ex_None: "list_ex (\<lambda>v. v = None) (map value_col df) = (\<exists>r\<in>set df. value_col r = None)"
  by (induction df) auto

lemma compute_rankings_all:
  assumes "\<forall>r\<in>set df. value_col r \<noteq> None"
  shows "compute_rankings value_col df =
     Inr (map (\<lambda>r. \<lparr>row = r,
                      rank = rank_desc_min (map (\<lambda>r. the (value_col r)) df) (the (value_col r)),
                      rank_total = length df,
                      percentile = percentile_of (length df)
                         (rank_desc_min (map (\<lambda>r. the (value_col r)) df) (the (value_col r)))\<rparr>) df)"
  using assms by (simp add: compute_rankings_def list_ex_None present_all Let_def)

lemma compute_rankings_error:
  assumes "\<exists>r\<in>set df. value_col r = None"
  shows "compute_rankings value_col df = Inl IntCastingNaNError"
  using assms by (simp add: compute_rankings_def list_ex_None Let_def)

text \<open>
  C7 (amended). When every row has a value, \<open>compute_rankings\<close> returns one output row per
  input row, in the input's order. The rank of a row is one more than the number of rows
  with a strictly larger value: ranks start at one, the largest value has rank one, and
  rows of equal value share the smallest rank of their tie. \<open>rank_total\<close> is the number of
  rows. The percentile is \<open>(rank_total - rank + 1) / rank_total * 100\<close> as float64
  arithmetic evaluates it (the quotient rounded to a double, then the product), rounded
  to one decimal place by \<open>np.round\<close>.
\<close>

theorem compute_rankings_rows:
  assumes "\<forall>r\<in>set df. value_col r \<noteq> None"
  shows "\<exists>out. compute_rankings value_col df = Inr out \<and> length out = length df \<and>
           (\<forall>i<length df.
              row (out ! i) = df ! i \<and>
              rank (out ! i) =
                Suc (length (filter (\<lambda>r. the (value_col (df ! i)) < the (value_col r)) df)) \<and>
              rank_total (out ! i) = length df \<and>
              percentile (out ! i) =
                np_round1 (fl (fl (of_int (int (rank_total (out ! i)) - int (rank (out ! i)) + 1)
                                     / of_int (int (rank_total (out ! i)))) * 100)))"
proof -
  have cnt: "rank_desc_min (map (\<lambda>r. the (value_col r)) df) (the (value_col (df ! i)))
        = Suc (length (filter (\<lambda>r. the (value_col (df ! i)) < the (value_col r)) df))"
    if "i < length df" for i
  proof -
    have "the (value_col (df ! i)) \<in> set (map (\<lambda>r. the (value_col r)) df)"
      using that by simp
    then show ?thesis
      by (simp add: rank_desc_min_count filter_map comp_def)
  qed
  show ?thesis
    unfolding compute_rankings_all[OF assms]
    by (simp add: cnt percentile_of_def)
qed

text \<open>
  C8. \<open>compute_rankings\<close> commutes with every reordering of the rows: if the rows are
  rearranged by a permutation \<open>p\<close> of the positions, the output is the original output
  rearranged by \<open>p\<close>, so each row keeps its rank, \<open>rank_total\<close> and percentile (and a
  table on which the original call raises makes the reordered call raise as well).
\<close>

theorem compute_rankings_permutation:
  assumes "mset p = mset [0..<length df]"
  shows "compute_rankings value_col (map ((!) df) p)
           = map_sum id (\<lambda>out. map ((!) out) p) (compute_rankings value_col df)"
proof -
  have sp: "set p = {0..<length df}"
    using assms by (metis mset_eq_setD set_upt)
  have m: "mset (map ((!) df) p) = mset df"
    using assms by (metis map_nth mset_map)
  then have s: "set (map ((!) df) p) = set df"
    by (rule mset_eq_setD)
  have l: "length p = length df"
    using assms by (metis length_upt mset_eq_length minus_nat.diff_0)
  show ?thesis
  proof (cases "\<forall>r\<in>set df. value_col r \<noteq> None")
    case True
    then have T': "\<forall>r\<in>set (map ((!) df) p). value_col r \<noteq> None"
      unfolding s by simp
    have mv: "mset (map (\<lambda>r. the (value_col r)) (map ((!) df) p)) = mset (map (\<lambda>r. the (value_col r)) df)"
      using m by (metis mset_map)
    have r: "rank_desc_min (map (\<lambda>r. the (value_col r)) (map ((!) df) p)) v
           = rank_desc_min (map (\<lambda>r. the (value_col r)) df) v" for v
      by (rule rank_desc_min_mset[OF mv])
    show ?thesis
      unfolding compute_rankings_all[OF True] compute_rankings_all[OF T'] r
      using sp by (simp add: l)
  next
    case False
    then have F': "\<exists>r\<in>set (map ((!) df) p). value_col r = None"
      unfolding s by simp
    from False have F: "\<exists>r\<in>set df. value_col r = None" by simp
    show ?thesis
      unfolding compute_rankings_error[OF F] compute_rankings_error[OF F'] by simp
  qed
qed


text \<open>
  The percentiles of three rows and of the third of four, each float64 operation in turn:
  the quotient, the product with 100, the product with 10, \<open>rint\<close>, the quotient by 10.
\<close>

lemma percentile_3_1_q: "fl (1) = 1"
  by (subst fl_eval_pos[where j = "0"]) (simp_all add: rint_def Let_def)

lemma percentile_3_1_p: "fl (100) = 100"
  by (subst fl_eval_pos[where j = "6"]) (simp_all add: rint_def Let_def)

lemma percentile_3_1_m: "fl (1000) = 1000"
  by (subst fl_eval_pos[where j = "9"]) (simp_all add: rint_def Let_def)

lemma percentile_3_1_k: "rint (1000) = 1000"
  by (simp add: rint_def Let_def)

lemma percentile_3_1_r: "fl (100) = 100"
  by (subst fl_eval_pos[where j = "6"]) (simp_all add: rint_def Let_def)

lemma percentile_3_1: "percentile_of 3 1 = 100"
  by (simp add: percentile_of_def np_round1_def percentile_3_1_q percentile_3_1_p percentile_3_1_m percentile_3_1_k percentile_3_1_r)

lemma percentile_3_2_q: "fl (2 / 3) = 6004799503160661 / 9007199254740992"
  by (subst fl_eval_neg[where j = "1"]) (simp_all add: rint_def Let_def)

lemma percentile_3_2_p: "fl (150119987579016525 / 2251799813685248) = 2345624805922133 / 35184372088832"
  by (subst fl_eval_pos[where j = "6"]) (simp_all add: rint_def Let_def)

lemma percentile_3_2_m: "fl (11728124029610665 / 17592186044416) = 1466015503701333 / 2199023255552"
  by (subst fl_eval_pos[where j = "9"]) (simp_all add: rint_def Let_def)

lemma percentile_3_2_k: "rint (1466015503701333 / 2199023255552) = 667"
  by (simp add: rint_def Let_def)

lemma percentile_3_2_r: "fl (667 / 10) = 4693595236650189 / 70368744177664"
  by (subst fl_eval_pos[where j = "6"]) (simp_all add: rint_def Let_def)

lemma percentile_3_2: "percentile_of 3 2 = 4693595236650189 / 70368744177664"
  by (simp add: percentile_of_def np_round1_def percentile_3_2_q percentile_3_2_p percentile_3_2_m percentile_3_2_k percentile_3_2_r)

lemma percentile_3_3_q: "fl (1 / 3) = 6004799503160661 / 18014398509481984"
  by (subst fl_eval_neg[where j = "2"]) (simp_all add: rint_def Let_def)

lemma percentile_3_3_p: "fl (150119987579016525 / 4503599627370496) = 2345624805922133 / 70368744177664"
  by (subst fl_eval_pos[where j = "5"]) (simp_all add: rint_def Let_def)

lemma percentile_3_3_m: "fl (11728124029610665 / 35184372088832) = 1466015503701333 / 4398046511104"
  by (subst fl_eval_pos[where j = "8"]) (simp_all add: rint_def Let_def)

lemma percentile_3_3_k: "rint (1466015503701333 / 4398046511104) = 333"
  by (simp add: rint_def Let_def)

lemma percentile_3_3_r: "fl (333 / 10) = 2343279181116211 / 70368744177664"
  by (subst fl_eval_pos[where j = "5"]) (simp_all add: rint_def Let_def)

lemma percentile_3_3: "percentile_of 3 3 = 2343279181116211 / 70368744177664"
  by (simp add: percentile_of_def np_round1_def percentile_3_3_q percentile_3_3_p percentile_3_3_m percentile_3_3_k percentile_3_3_r)

lemma percentile_4_3_q: "fl (1 / 2) = 1 / 2"
  by (subst fl_eval_neg[where j = "1"]) (simp_all add: rint_def Let_def)

lemma percentile_4_3_p: "fl (50) = 50"
  by (subst fl_eval_pos[where j = "5"]) (simp_all add: rint_def Let_def)

lemma percentile_4_3_m: "fl (500) = 500"
  by (subst fl_eval_pos[where j = "8"]) (simp_all add: rint_def Let_def)

lemma percentile_4_3_k: "rint (500) = 500"
  by (simp add: rint_def Let_def)

lemma percentile_4_3_r: "fl (50) = 50"
  by (subst fl_eval_pos[where j = "5"]) (simp_all add: rint_def Let_def)

lemma percentile_4_3: "percentile_of 4 3 = 50"
  by (simp add: percentile_of_def np_round1_def percentile_4_3_q percentile_4_3_p percentile_4_3_m percentile_4_3_k percentile_4_3_r)

text \<open>
  C7 as stated fails on the percentile: of three rows the second-ranked one has
  \<open>(3 - 2 + 1) / 3 * 100\<close>, which is 66.66..., and the column holds the double 66.7.
\<close>

theorem compute_rankings_percentile_counterexample:
  "compute_rankings id [Some 3, Some 2, Some 1]
     = Inr [\<lparr>row = Some 3, rank = 1, rank_total = 3, percentile = 100\<rparr>,
            \<lparr>row = Some 2, rank = 2, rank_total = 3, percentile = 4693595236650189 / 70368744177664\<rparr>,
            \<lparr>row = Some 1, rank = 3, rank_total = 3, percentile = 2343279181116211 / 70368744177664\<rparr>]
   \<and> (4693595236650189 / 70368744177664 :: real) \<noteq> (3 - 2 + 1) / 3 * 100"
proof -
  have "percentile_of (Suc (Suc (Suc 0))) (Suc 0) = 100"
    using percentile_3_1 by (simp add: numeral_3_eq_3)
  moreover have "percentile_of (Suc (Suc (Suc 0))) (Suc (Suc 0)) = 4693595236650189 / 70368744177664"
    using percentile_3_2 by (simp add: numeral_3_eq_3 numeral_2_eq_2)
  moreover have "percentile_of (Suc (Suc (Suc 0))) (Suc (Suc (Suc 0))) = 2343279181116211 / 70368744177664"
    using percentile_3_3 by (simp add: numeral_3_eq_3)
  ultimately show ?thesis
    by (simp add: compute_rankings_def present_def rank_desc_min_def Let_def)
qed

text \<open>Four rows with a tie at the top: the ranks are 1, 4, 1, 3.\<close>

theorem compute_rankings_rows_witness:
  "\<exists>out. compute_rankings id [Some 3, Some 1, Some 3, Some (2::real)] = Inr out \<and> length out = 4 \<and>
      rank (out ! 0) = 1 \<and> rank (out ! 1) = 4 \<and> rank (out ! 2) = 1 \<and> rank (out ! 3) = 3 \<and>
      percentile (out ! 3) = 50"
proof -
  have h: "\<forall>r\<in>set [Some 3, Some 1, Some 3, Some (2::real)]. id r \<noteq> None" by simp
  from compute_rankings_rows[OF h] obtain out where
    o: "compute_rankings id [Some 3, Some 1, Some 3, Some (2::real)] = Inr out"
    and l: "length out = length [Some 3, Some 1, Some 3, Some (2::real)]"
    and a: "\<forall>i<length [Some 3, Some 1, Some 3, Some (2::real)].
              row (out ! i) = [Some 3, Some 1, Some 3, Some (2::real)] ! i \<and>
              rank (out ! i) =
                Suc (length (filter (\<lambda>r. the (id ([Some 3, Some 1, Some 3, Some (2::real)] ! i)) < the (id r))
                   [Some 3, Some 1, Some 3, Some (2::real)])) \<and>
              rank_total (out ! i) = length [Some 3, Some 1, Some 3, Some (2::real)] \<and>
              percentile (out ! i) =
                np_round1 (fl (fl (of_int (int (rank_total (out ! i)) - int (rank (out ! i)) + 1)
                                     / of_int (int (rank_total (out ! i)))) * 100))"
    by blast
  from a have r0: "rank (out ! 0) = 1" by simp
  from a have "rank (out ! 1) = Suc (length (filter (\<lambda>r. the (id ([Some 3, Some 1, Some 3, Some (2::real)] ! 1)) < the (id r))
                   [Some 3, Some 1, Some 3, Some (2::real)]))" by simp
  then have r1: "rank (out ! 1) = 4" by simp
  from a have "rank (out ! 2) = Suc (length (filter (\<lambda>r. the (id ([Some 3, Some 1, Some 3, Some (2::real)] ! 2)) < the (id r))
                   [Some 3, Some 1, Some 3, Some (2::real)]))" by simp
  then have r2: "rank (out ! 2) = 1" by simp
  from a have r3': "rank (out ! 3) = Suc (length (filter (\<lambda>r. the (id ([Some 3, Some 1, Some 3, Some (2::real)] ! 3)) < the (id r))
                   [Some 3, Some 1, Some 3, Some (2::real)])) \<and> rank_total (out ! 3) = 4 \<and>
              percentile (out ! 3) =
                np_round1 (fl (fl (of_int (int (rank_total (out ! 3)) - int (rank (out ! 3)) + 1)
                                     / of_int (int (rank_total (out ! 3)))) * 100))" by simp
  then have r3: "rank (out ! 3) = 3" by simp
  from r3' have rt: "rank_total (out ! 3) = 4" by simp
  from r3' have pe: "percentile (out ! 3) =
                np_round1 (fl (fl (of_int (int (rank_total (out ! 3)) - int (rank (out ! 3)) + 1)
                                     / of_int (int (rank_total (out ! 3)))) * 100))" by simp
  have p3: "percentile (out ! 3) = 50"
    unfolding pe rt r3 using percentile_4_3 by (simp add: percentile_of_def)
  from o l r0 r1 r2 r3 p3 show ?thesis by simp
qed

text \<open>Three rows rotated.\<close>

theorem compute_rankings_permutation_witness:
  "mset [2, 0, 1] = mset [0..<length [Some 5, Some 7, Some (7::real)]] \<and>
   compute_rankings id (map ((!) [Some 5, Some 7, Some (7::real)]) [2, 0, 1])
     = map_sum id (\<lambda>out. map ((!) out) [2, 0, 1]) (compute_rankings id [Some 5, Some 7, Some (7::real)])"
proof -
  have h: "mset [2, 0, 1] = mset [0..<length [Some 5, Some 7, Some (7::real)]]"
    by (simp add: upt_rec)
  from compute_rankings_permutation[OF h] h show ?thesis by blast
qed

section \<open>Properties of the city to metro matcher\<close>

lemma set_sort_values: "set (sort_values k xs) = set xs"
  by (auto simp: sort_values_def)

lemma sort_values_Nil: "(sort_values k xs = []) = (xs = [])"
  by (metis set_sort_values set_empty)


lemma iloc0_Cons: "xs \<noteq> [] \<Longrightarrow> \<exists>x\<in>set xs. iloc0 xs = Inr x \<and> x = hd xs"
  by (cases xs) (auto simp: iloc0_def)

lemma pick_best_in:
  assumes "cands \<noteq> []"
  shows "\<exists>b\<in>set cands. pick_best crow cands = Inr b"
proof -
  have a: "\<exists>x\<in>set cands. iloc0 cands = Inr x" using iloc0_Cons[OF assms] by blast
  have "sort_values k cands \<noteq> []" for k :: "('a, 'b) boundary \<Rightarrow> 'b option"
    using assms by (simp add: sort_values_Nil)
  then have b: "\<exists>x\<in>set cands. iloc0 (sort_values k cands) = Inr x"
    for k :: "('a, 'b) boundary \<Rightarrow> 'b option"
    using iloc0_Cons[of "sort_values k cands"] by (metis set_sort_values)
  show ?thesis
    using a b by (auto simp: pick_best_def split: option.splits)
qed

lemma match_row_unfold:
  assumes "row_city_full crow \<noteq> []" "manual_matches bs (city crow) (row_city_full crow) = []"
  shows "match_row rx bs crow =
     (case string_candidates rx bs (city crow) (row_city_full crow) of
        Inl e \<Rightarrow> Inl e
      | Inr cands \<Rightarrow> if cands = [] then Inr None else map_sum id Some (pick_best crow cands))"
  using assms
  by (auto simp: match_row_def Let_def split: sum.splits list.splits)


text \<open>
  C1. For a row with a non-empty city label the matcher tries its stages in the order manual
  override, exact name, substring, tokenized fuzzy match, and the first stage with
  candidates decides:
  \<^item> a manual override that finds a boundary returns it, whatever the regular-expression
    search \<open>rx\<close> does;
  \<^item> otherwise, when some boundary's lowercased name equals the lowercased label, the
    boundary returned is one of those, and it is the same for every \<open>rx'\<close>, also one that
    raises: the substring and fuzzy stages are not consulted;
  \<^item> otherwise, when the substring search finds boundaries, the boundary returned is one
    of those, and it is the same for every \<open>rx'\<close> that agrees with \<open>rx\<close> on the label: the
    fuzzy stage is not consulted;
  \<^item> otherwise the result is that of the fuzzy stage.
\<close>

theorem matcher_stage_order:
  assumes "row_city_full crow \<noteq> []"
  shows "(\<forall>b ms. manual_matches bs (city crow) (row_city_full crow) = b # ms
            \<longrightarrow> match_row rx bs crow = Inr (Some b)) \<and>
         (manual_matches bs (city crow) (row_city_full crow) = [] \<longrightarrow>
            (exact_matches bs (str_lower (row_city_full crow)) \<noteq> [] \<longrightarrow>
               (\<exists>b\<in>set (exact_matches bs (str_lower (row_city_full crow))).
                   pick_best crow (exact_matches bs (str_lower (row_city_full crow))) = Inr b \<and>
                   (\<forall>rx'. match_row rx' bs crow = Inr (Some b)))) \<and>
            (exact_matches bs (str_lower (row_city_full crow)) = [] \<longrightarrow>
               (\<forall>cs. contains_matches rx bs (str_lower (row_city_full crow)) = Inr cs \<and> cs \<noteq> [] \<longrightarrow>
                  (\<exists>b\<in>set cs. pick_best crow cs = Inr b \<and>
                     (\<forall>rx'. rx' (str_lower (row_city_full crow)) = rx (str_lower (row_city_full crow))
                         \<longrightarrow> match_row rx' bs crow = Inr (Some b)))) \<and>
               (contains_matches rx bs (str_lower (row_city_full crow)) = Inr [] \<longrightarrow>
                  match_row rx bs crow =
                    (case fuzzy_matches rx bs (city crow) (row_city_full crow) of
                       Inl e \<Rightarrow> Inl e
                     | Inr fs \<Rightarrow> if fs = [] then Inr None else map_sum id Some (pick_best crow fs)))))"
proof (intro conjI allI impI)
  fix b ms
  assume "manual_matches bs (city crow) (row_city_full crow) = b # ms"
  with assms show "match_row rx bs crow = Inr (Some b)"
    by (simp add: match_row_def Let_def)
next
  assume m: "manual_matches bs (city crow) (row_city_full crow) = []"
    and e: "exact_matches bs (str_lower (row_city_full crow)) \<noteq> []"
  from pick_best_in[OF e] obtain b where
    b: "b \<in> set (exact_matches bs (str_lower (row_city_full crow)))"
       "pick_best crow (exact_matches bs (str_lower (row_city_full crow))) = Inr b"
    by blast
  have "string_candidates rx' bs (city crow) (row_city_full crow)
          = Inr (exact_matches bs (str_lower (row_city_full crow)))" for rx'
    using e by (simp add: string_candidates_def Let_def)
  then have "match_row rx' bs crow = Inr (Some b)" for rx'
    using assms m e b by (simp add: match_row_unfold)
  with b show "\<exists>b\<in>set (exact_matches bs (str_lower (row_city_full crow))).
                   pick_best crow (exact_matches bs (str_lower (row_city_full crow))) = Inr b \<and>
                   (\<forall>rx'. match_row rx' bs crow = Inr (Some b))"
    by blast
next
  fix cs
  assume m: "manual_matches bs (city crow) (row_city_full crow) = []"
    and e: "exact_matches bs (str_lower (row_city_full crow)) = []"
    and c: "contains_matches rx bs (str_lower (row_city_full crow)) = Inr cs \<and> cs \<noteq> []"
  from c pick_best_in[of cs crow] obtain b where
    b: "b \<in> set cs" "pick_best crow cs = Inr b"
    by blast
  have "contains_matches rx' bs (str_lower (row_city_full crow)) = Inr cs"
    if "rx' (str_lower (row_city_full crow)) = rx (str_lower (row_city_full crow))" for rx'
    using c that by (simp add: contains_matches_def)
  then have "string_candidates rx' bs (city crow) (row_city_full crow) = Inr cs"
    if "rx' (str_lower (row_city_full crow)) = rx (str_lower (row_city_full crow))" for rx'
    using e c that by (simp add: string_candidates_def Let_def)
  then have "match_row rx' bs crow = Inr (Some b)"
    if "rx' (str_lower (row_city_full crow)) = rx (str_lower (row_city_full crow))" for rx'
    using assms m c b that by (simp add: match_row_unfold)
  with b show "\<exists>b\<in>set cs. pick_best crow cs = Inr b \<and>
                     (\<forall>rx'. rx' (str_lower (row_city_full crow)) = rx (str_lower (row_city_full crow))
                         \<longrightarrow> match_row rx' bs crow = Inr (Some b))"
    by blast
next
  assume m: "manual_matches bs (city crow) (row_city_full crow) = []"
    and e: "exact_matches bs (str_lower (row_city_full crow)) = []"
    and c: "contains_matches rx bs (str_lower (row_city_full crow)) = Inr []"
  have "string_candidates rx bs (city crow) (row_city_full crow)
          = fuzzy_matches rx bs (city crow) (row_city_full crow)"
    using e c by (simp add: string_candidates_def Let_def)
  then show "match_row rx bs crow =
                    (case fuzzy_matches rx bs (city crow) (row_city_full crow) of
                       Inl e \<Rightarrow> Inl e
                     | Inr fs \<Rightarrow> if fs = [] then Inr None else map_sum id Some (pick_best crow fs))"
    using assms m by (simp add: match_row_unfold)
qed


text \<open>
  Two boundaries, the first containing the label ``Salem, OR'' and the second equal to it:
  the substring search would find both, the exact stage finds the second, and the second
  is returned.
\<close>

theorem matcher_stage_order_witness:
  "exact_matches
     [\<lparr>NAME = ''Salem, OR-WA'', geometry = 1::nat, centroid_lat = Some (0::int), centroid_lon = Some 0\<rparr>,
      \<lparr>NAME = ''Salem, OR'', geometry = 2::nat, centroid_lat = Some (5::int), centroid_lon = Some 5\<rparr>] ''salem, or''
     = [\<lparr>NAME = ''Salem, OR'', geometry = 2::nat, centroid_lat = Some (5::int), centroid_lon = Some 5\<rparr>] \<and>
   contains_matches literal_rx
     [\<lparr>NAME = ''Salem, OR-WA'', geometry = 1::nat, centroid_lat = Some (0::int), centroid_lon = Some 0\<rparr>,
      \<lparr>NAME = ''Salem, OR'', geometry = 2::nat, centroid_lat = Some (5::int), centroid_lon = Some 5\<rparr>] ''salem, or''
     = Inr [\<lparr>NAME = ''Salem, OR-WA'', geometry = 1::nat, centroid_lat = Some (0::int), centroid_lon = Some 0\<rparr>,
      \<lparr>NAME = ''Salem, OR'', geometry = 2::nat, centroid_lat = Some (5::int), centroid_lon = Some 5\<rparr>] \<and>
   match_row literal_rx
     [\<lparr>NAME = ''Salem, OR-WA'', geometry = 1::nat, centroid_lat = Some (0::int), centroid_lon = Some 0\<rparr>,
      \<lparr>NAME = ''Salem, OR'', geometry = 2::nat, centroid_lat = Some (5::int), centroid_lon = Some 5\<rparr>]
     \<lparr>city = ''salem'', city_full = Some ''Salem, OR'', avg_metric_value = Some 1, lat = None, lon = None\<rparr>
     = Inr (Some \<lparr>NAME = ''Salem, OR'', geometry = 2::nat, centroid_lat = Some (5::int), centroid_lon = Some 5\<rparr>)"
proof -
  let ?bs = "[\<lparr>NAME = ''Salem, OR-WA'', geometry = 1::nat, centroid_lat = Some (0::int), centroid_lon = Some 0\<rparr>,
      \<lparr>NAME = ''Salem, OR'', geometry = 2::nat, centroid_lat = Some (5::int), centroid_lon = Some 5\<rparr>]"
  let ?r = "\<lparr>city = ''salem'', city_full = Some ''Salem, OR'', avg_metric_value = Some 1, lat = None, lon = None\<rparr>"
  have n: "row_city_full ?r \<noteq> []" by code_simp
  have l: "str_lower (row_city_full ?r) = ''salem, or''" by code_simp
  have m: "manual_matches ?bs (city ?r) (row_city_full ?r) = []" by code_simp
  have e: "exact_matches ?bs ''salem, or'' = [\<lparr>NAME = ''Salem, OR'', geometry = 2::nat, centroid_lat = Some (5::int), centroid_lon = Some 5\<rparr>]" by code_simp
  have c: "contains_matches literal_rx ?bs ''salem, or'' = Inr ?bs" by code_simp
  from matcher_stage_order[OF n, of ?bs literal_rx] m e
  have "match_row literal_rx ?bs ?r = Inr (Some \<lparr>NAME = ''Salem, OR'', geometry = 2::nat, centroid_lat = Some (5::int), centroid_lon = Some 5\<rparr>)"
    unfolding l by auto
  with e c show ?thesis by blast
qed



text \<open>
  C10. When the manual override names a boundary that is not in the boundary table, the
  row is not dropped: the matcher goes on to the exact stage, then the substring stage,
  then the fuzzy stage, exactly as for a row without an override.
\<close>

theorem manual_miss_falls_through:
  assumes "row_city_full crow \<noteq> []"
    and "resolve_manual_cbsa_name (city crow) (row_city_full crow) = Some manual_name"
    and "\<forall>b\<in>set bs. NAME b \<noteq> manual_name"
  shows "match_row rx bs crow =
     (if exact_matches bs (str_lower (row_city_full crow)) \<noteq> []
      then map_sum id Some (pick_best crow (exact_matches bs (str_lower (row_city_full crow))))
      else case contains_matches rx bs (str_lower (row_city_full crow)) of
             Inl e \<Rightarrow> Inl e
           | Inr cs \<Rightarrow>
               if cs \<noteq> [] then map_sum id Some (pick_best crow cs)
               else (case fuzzy_matches rx bs (city crow) (row_city_full crow) of
                       Inl e \<Rightarrow> Inl e
                     | Inr fs \<Rightarrow> if fs = [] then Inr None else map_sum id Some (pick_best crow fs)))"
proof -
  have "filter (\<lambda>b. NAME b = manual_name) bs = []"
    using assms(3) by (simp add: filter_empty_conv)
  then have m: "manual_matches bs (city crow) (row_city_full crow) = []"
    using assms(2) by (simp add: manual_matches_def)
  show ?thesis
    unfolding match_row_unfold[OF assms(1) m]
    by (auto simp: string_candidates_def Let_def split: sum.splits)
qed


text \<open>
  ``Boston, MA'' is overridden to a name the table does not hold; the fuzzy stage finds
  the one boundary with the token ``boston'' and the state code MA.
\<close>

theorem manual_miss_falls_through_witness:
  "resolve_manual_cbsa_name ''boston'' ''Boston, MA'' = Some ''Boston-Cambridge-Newton, MA-NH'' \<and>
   match_row literal_rx
     [\<lparr>NAME = ''Boston-Worcester-Providence, MA-RI'', geometry = 11::nat, centroid_lat = Some (42::int), centroid_lon = Some (-71)\<rparr>]
     \<lparr>city = ''boston'', city_full = Some ''Boston, MA'', avg_metric_value = Some 1, lat = (None :: int option), lon = None\<rparr>
     = Inr (Some \<lparr>NAME = ''Boston-Worcester-Providence, MA-RI'', geometry = 11::nat, centroid_lat = Some (42::int), centroid_lon = Some (-71)\<rparr>)"
proof -
  let ?b = "\<lparr>NAME = ''Boston-Worcester-Providence, MA-RI'', geometry = 11::nat, centroid_lat = Some (42::int), centroid_lon = Some (-71)\<rparr>"
  let ?r = "\<lparr>city = ''boston'', city_full = Some ''Boston, MA'', avg_metric_value = Some 1, lat = (None :: int option), lon = None\<rparr>"
  have n: "row_city_full ?r \<noteq> []" by code_simp
  have m: "resolve_manual_cbsa_name (city ?r) (row_city_full ?r) = Some ''Boston-Cambridge-Newton, MA-NH''"
    by code_simp
  have a: "\<forall>b\<in>set [?b]. NAME b \<noteq> ''Boston-Cambridge-Newton, MA-NH''" by simp
  have rc: "row_city_full ?r = ''Boston, MA''" by code_simp
  have l: "str_lower ''Boston, MA'' = ''boston, ma''" by code_simp
  have e: "exact_matches [?b] ''boston, ma'' = []" by code_simp
  have c: "contains_matches literal_rx [?b] ''boston, ma'' = Inr []" by code_simp
  have f: "fuzzy_matches literal_rx [?b] ''boston'' ''Boston, MA'' = Inr [?b]" by code_simp
  have p: "pick_best ?r [?b] = Inr ?b" by (simp add: pick_best_def iloc0_def)
  have m': "resolve_manual_cbsa_name ''boston'' ''Boston, MA'' = Some ''Boston-Cambridge-Newton, MA-NH''"
    by code_simp
  from manual_miss_falls_through[OF n m a, of literal_rx]
  have "match_row literal_rx [?b] ?r = Inr (Some ?b)"
    by (simp add: rc l e c f p)
  with m' show ?thesis by blast
qed

text \<open>
  Stripping a stripped string changes nothing.
\<close>

lemma str_strip_idem: "str_strip (str_strip s) = str_strip s"
proof -
  let ?t = "dropWhile is_space s"
  let ?u = "rev (dropWhile is_space (rev ?t))"
  have split: "?t = ?u @ rev (takeWhile is_space (rev ?t))"
    by (metis rev_append rev_rev_ident takeWhile_dropWhile_id)
  have "dropWhile is_space ?u = ?u"
  proof (cases "?u = []")
    case True
    then show ?thesis by (metis dropWhile.simps(1))
  next
    case False
    have "?t \<noteq> []"
    proof
      assume "?t = []"
      then have "?u = []" by (simp only: rev.simps dropWhile.simps)
      with False show False by blast
    qed
    then have "\<not> is_space (hd ?t)" by (rule hd_dropWhile)
    moreover have "hd ?t = hd ?u" using split False by (metis hd_append2)
    ultimately show ?thesis using False by (cases ?u) auto
  qed
  then show ?thesis
    by (simp add: str_strip_def)
qed

text \<open>
  C3 (amended). The manual override table has the one key \<open>dc_metro\<close>. A row whose
  lowercased city label is that key, against a boundary table that holds the name
  ``Washington-Arlington-Alexandria, DC-VA-MD-WV'', is resolved by the manual override to
  the first boundary of that name, whatever the regular-expression search does: the
  exact, substring and fuzzy stages are bypassed.
\<close>

theorem dc_metro_manual_override:
  assumes "str_lower (row_city_full crow) = ''dc_metro''"
    and "b \<in> set bs"
    and "NAME b = ''Washington-Arlington-Alexandria, DC-VA-MD-WV''"
  shows "\<exists>b'\<in>set bs. NAME b' = ''Washington-Arlington-Alexandria, DC-VA-MD-WV'' \<and>
           manual_matches bs (city crow) (row_city_full crow) \<noteq> [] \<and>
           b' = hd (manual_matches bs (city crow) (row_city_full crow)) \<and>
           (\<forall>rx. match_row rx bs crow = Inr (Some b'))"
proof -
  have ne: "row_city_full crow \<noteq> []"
    using assms(1) by (auto simp: str_lower_def)
  have "str_strip (row_city_full crow) = row_city_full crow"
    by (simp add: row_city_full_def str_strip_idem)
  then have "resolve_manual_cbsa_name (city crow) (row_city_full crow)
               = Some ''Washington-Arlington-Alexandria, DC-VA-MD-WV''"
    using assms(1) ne by (simp add: resolve_manual_cbsa_name_def py_or_def MANUAL_CBSA_NAME_MAP_def)
  then have mm: "manual_matches bs (city crow) (row_city_full crow)
               = filter (\<lambda>b. NAME b = ''Washington-Arlington-Alexandria, DC-VA-MD-WV'') bs"
    by (simp add: manual_matches_def)
  from assms(2,3) have "b \<in> set (filter (\<lambda>b. NAME b = ''Washington-Arlington-Alexandria, DC-VA-MD-WV'') bs)"
    by simp
  then obtain b' ms where f: "filter (\<lambda>b. NAME b = ''Washington-Arlington-Alexandria, DC-VA-MD-WV'') bs = b' # ms"
    by (cases "filter (\<lambda>b. NAME b = ''Washington-Arlington-Alexandria, DC-VA-MD-WV'') bs") auto
  then have "b' \<in> set (filter (\<lambda>b. NAME b = ''Washington-Arlington-Alexandria, DC-VA-MD-WV'') bs)"
    by simp
  then have b': "b' \<in> set bs" "NAME b' = ''Washington-Arlington-Alexandria, DC-VA-MD-WV''"
    by simp_all
  have "match_row rx bs crow = Inr (Some b')" for rx
    using ne mm f by (simp add: match_row_def Let_def)
  with b' mm f show ?thesis by auto
qed

text \<open>
  The label ``DC_Metro'' with a search that always raises: the override still resolves it.
\<close>

theorem dc_metro_manual_override_witness:
  "match_row (\<lambda>pat. None)
     [\<lparr>NAME = ''Boston-Worcester-Providence, MA-RI'', geometry = 11::nat, centroid_lat = Some (42::int), centroid_lon = Some (-71)\<rparr>,
      \<lparr>NAME = ''Washington-Arlington-Alexandria, DC-VA-MD-WV'', geometry = 17::nat, centroid_lat = Some (38::int), centroid_lon = Some (-77)\<rparr>]
     \<lparr>city = ''dc_metro'', city_full = Some ''DC_Metro'', avg_metric_value = Some 1, lat = (None :: int option), lon = None\<rparr>
     = Inr (Some \<lparr>NAME = ''Washington-Arlington-Alexandria, DC-VA-MD-WV'', geometry = 17::nat, centroid_lat = Some (38::int), centroid_lon = Some (-77)\<rparr>)"
proof -
  let ?bs = "[\<lparr>NAME = ''Boston-Worcester-Providence, MA-RI'', geometry = 11::nat, centroid_lat = Some (42::int), centroid_lon = Some (-71)\<rparr>,
      \<lparr>NAME = ''Washington-Arlington-Alexandria, DC-VA-MD-WV'', geometry = 17::nat, centroid_lat = Some (38::int), centroid_lon = Some (-77)\<rparr>]"
  let ?r = "\<lparr>city = ''dc_metro'', city_full = Some ''DC_Metro'', avg_metric_value = Some 1, lat = (None :: int option), lon = None\<rparr>"
  have l: "str_lower (row_city_full ?r) = ''dc_metro''" by code_simp
  have i: "\<lparr>NAME = ''Washington-Arlington-Alexandria, DC-VA-MD-WV'', geometry = 17::nat, centroid_lat = Some (38::int), centroid_lon = Some (-77)\<rparr> \<in> set ?bs" by simp
  from dc_metro_manual_override[OF l i] show ?thesis by auto
qed

text \<open>
  C3 as stated fails: for the label ``Washington, DC'' the override table has no entry
  and the manual stage finds nothing. Against a table holding only the Washington
  boundary the row is resolved by the fuzzy stage (token ``washington'', state code DC).
\<close>

theorem washington_dc_no_override_counterexample:
  "resolve_manual_cbsa_name ''dc_metro'' ''Washington, DC'' = None \<and>
   manual_matches [\<lparr>NAME = ''Washington-Arlington-Alexandria, DC-VA-MD-WV'', geometry = 17::nat, centroid_lat = Some (38::int), centroid_lon = Some (-77)\<rparr>] ''dc_metro'' ''Washington, DC'' = [] \<and>
   fuzzy_matches literal_rx [\<lparr>NAME = ''Washington-Arlington-Alexandria, DC-VA-MD-WV'', geometry = 17::nat, centroid_lat = Some (38::int), centroid_lon = Some (-77)\<rparr>] ''dc_metro'' ''Washington, DC''
     = Inr [\<lparr>NAME = ''Washington-Arlington-Alexandria, DC-VA-MD-WV'', geometry = 17::nat, centroid_lat = Some (38::int), centroid_lon = Some (-77)\<rparr>] \<and>
   match_row literal_rx [\<lparr>NAME = ''Washington-Arlington-Alexandria, DC-VA-MD-WV'', geometry = 17::nat, centroid_lat = Some (38::int), centroid_lon = Some (-77)\<rparr>]
     \<lparr>city = ''dc_metro'', city_full = Some ''Washington, DC'', avg_metric_value = Some 1, lat = (None :: int option), lon = None\<rparr>
     = Inr (Some \<lparr>NAME = ''Washington-Arlington-Alexandria, DC-VA-MD-WV'', geometry = 17::nat, centroid_lat = Some (38::int), centroid_lon = Some (-77)\<rparr>)"
  by code_simp


text \<open>
  C2 (amended). In the fuzzy stage, when the label yields a state code and the tokens
  match at least one boundary name, the candidates are the token-matched boundaries whose
  uppercased name contains the state code. When there is none the stage has no candidate
  (there is no fallback to the token-matched set), and a row that no earlier stage
  resolved is dropped.
\<close>

theorem fuzzy_state_restriction:
  assumes "parse_city_state c cf = (city_base, state_abbrev)"
    and "state_abbrev \<noteq> []"
    and "filter (base_mask (build_city_tokens city_base)) bs \<noteq> []"
    and "rx state_abbrev = Some m"
  shows "fuzzy_matches rx bs c cf =
           Inr (filter (\<lambda>b. base_mask (build_city_tokens city_base) b \<and> m (name_upper b)) bs) \<and>
         (filter (\<lambda>b. base_mask (build_city_tokens city_base) b \<and> m (name_upper b)) bs = [] \<longrightarrow>
            fuzzy_matches rx bs c cf = Inr [] \<and>
            (\<forall>crow. city crow = c \<and> row_city_full crow = cf \<and> cf \<noteq> [] \<and>
                manual_matches bs c cf = [] \<and> exact_matches bs (str_lower cf) = [] \<and>
                contains_matches rx bs (str_lower cf) = Inr []
                \<longrightarrow> match_row rx bs crow = Inr None))"
proof -
  have t: "build_city_tokens city_base \<noteq> []"
    using assms(3) by (auto simp: base_mask_def)
  have f: "fuzzy_matches rx bs c cf =
           Inr (filter (\<lambda>b. base_mask (build_city_tokens city_base) b \<and> m (name_upper b)) bs)"
    using assms t by (simp add: fuzzy_matches_def Let_def)
  have "match_row rx bs crow = Inr None"
    if "filter (\<lambda>b. base_mask (build_city_tokens city_base) b \<and> m (name_upper b)) bs = []"
      and "city crow = c \<and> row_city_full crow = cf \<and> cf \<noteq> [] \<and>
                manual_matches bs c cf = [] \<and> exact_matches bs (str_lower cf) = [] \<and>
                contains_matches rx bs (str_lower cf) = Inr []"
    for crow :: "'b city_row"
  proof -
    have "string_candidates rx bs c cf = Inr []"
      using that f by (simp add: string_candidates_def Let_def)
    with that(2) show ?thesis
      using match_row_unfold[of crow bs rx] by simp
  qed
  with f show ?thesis by simp
qed

text \<open>
  ``Seattle, WA'' against ``Seattle, OR'' and ``Seattle-Tacoma-Bellevue, WA'': the second
  alone. ``Portland, ME'' against a Portland of OR-WA: nothing.
\<close>

theorem fuzzy_state_restriction_witness:
  "fuzzy_matches literal_rx
     [\<lparr>NAME = ''Seattle, OR'', geometry = 21::nat, centroid_lat = Some (44::int), centroid_lon = Some (-123)\<rparr>,
      \<lparr>NAME = ''Seattle-Tacoma-Bellevue, WA'', geometry = 22::nat, centroid_lat = Some (47::int), centroid_lon = Some (-122)\<rparr>]
     ''seattle'' ''Seattle, WA''
     = Inr [\<lparr>NAME = ''Seattle-Tacoma-Bellevue, WA'', geometry = 22::nat, centroid_lat = Some (47::int), centroid_lon = Some (-122)\<rparr>] \<and>
   fuzzy_matches literal_rx
     [\<lparr>NAME = ''Portland-Vancouver-Hillsboro, OR-WA'', geometry = 23::nat, centroid_lat = Some (45::int), centroid_lon = Some (-122)\<rparr>]
     ''portland'' ''Portland, ME'' = Inr []"
proof -
  let ?s1 = "\<lparr>NAME = ''Seattle, OR'', geometry = 21::nat, centroid_lat = Some (44::int), centroid_lon = Some (-123)\<rparr>"
  let ?s2 = "\<lparr>NAME = ''Seattle-Tacoma-Bellevue, WA'', geometry = 22::nat, centroid_lat = Some (47::int), centroid_lon = Some (-122)\<rparr>"
  let ?pv = "\<lparr>NAME = ''Portland-Vancouver-Hillsboro, OR-WA'', geometry = 23::nat, centroid_lat = Some (45::int), centroid_lon = Some (-122)\<rparr>"
  have p: "parse_city_state ''seattle'' ''Seattle, WA'' = (''Seattle'', ''WA'')" by code_simp
  have s: "''WA'' \<noteq> []" by simp
  have t: "filter (base_mask (build_city_tokens ''Seattle'')) [?s1, ?s2] \<noteq> []" by code_simp
  have r: "literal_rx ''WA'' = Some (str_in ''WA'')" by (simp add: literal_rx_def)
  have v: "filter (\<lambda>b. base_mask (build_city_tokens ''Seattle'') b \<and> str_in ''WA'' (name_upper b)) [?s1, ?s2]
             = [?s2]" by code_simp
  have a: "fuzzy_matches literal_rx [?s1, ?s2] ''seattle'' ''Seattle, WA'' = Inr [?s2]"
    using fuzzy_state_restriction[where rx = literal_rx and m = "str_in ''WA''", OF p s t r] unfolding v by simp
  have p': "parse_city_state ''portland'' ''Portland, ME'' = (''Portland'', ''ME'')" by code_simp
  have s': "''ME'' \<noteq> []" by simp
  have t': "filter (base_mask (build_city_tokens ''Portland'')) [?pv] \<noteq> []" by code_simp
  have r': "literal_rx ''ME'' = Some (str_in ''ME'')" by (simp add: literal_rx_def)
  have v': "filter (\<lambda>b. base_mask (build_city_tokens ''Portland'') b \<and> str_in ''ME'' (name_upper b)) [?pv]
             = []" by code_simp
  have b: "fuzzy_matches literal_rx [?pv] ''portland'' ''Portland, ME'' = Inr []"
    using fuzzy_state_restriction[where rx = literal_rx and m = "str_in ''ME''", OF p' s' t' r'] unfolding v' by simp
  from a b show ?thesis by blast
qed

text \<open>
  C2 as stated fails on the fallback: ``Portland, ME'' has the state code ME, the token
  ``portland'' matches the one boundary, its name has no ME, and the row is dropped
  although the token-matched set is not empty.
\<close>

theorem fuzzy_no_fallback_counterexample:
  "parse_city_state ''portland'' ''Portland, ME'' = (''Portland'', ''ME'') \<and>
   filter (base_mask (build_city_tokens ''Portland''))
     [\<lparr>NAME = ''Portland-Vancouver-Hillsboro, OR-WA'', geometry = 23::nat, centroid_lat = Some (45::int), centroid_lon = Some (-122)\<rparr>]
     = [\<lparr>NAME = ''Portland-Vancouver-Hillsboro, OR-WA'', geometry = 23::nat, centroid_lat = Some (45::int), centroid_lon = Some (-122)\<rparr>] \<and>
   match_row literal_rx
     [\<lparr>NAME = ''Portland-Vancouver-Hillsboro, OR-WA'', geometry = 23::nat, centroid_lat = Some (45::int), centroid_lon = Some (-122)\<rparr>]
     \<lparr>city = ''portland'', city_full = Some ''Portland, ME'', avg_metric_value = Some 1, lat = (None :: int option), lon = None\<rparr>
     = Inr None"
  by code_simp

section \<open>Properties of the ZIP filter\<close>

text \<open>
  Dropping duplicates keeps the rows that occur; the merged table holds exactly the pairs
  of a shape and a metric row with the same ZIP code.
\<close>

lemma set_dedup: "set (dedup xs) = set xs"
  by (simp add: dedup_def)

lemma merge_inner_mem:
  "p \<in> set (merge_inner shapes small) \<Longrightarrow>
     \<exists>s\<in>set shapes. zcta_zip_code_str s = zp_zip_code_str p \<and> zcta_geometry s = zp_geometry p \<and>
        (zp_zip_code_str p, zp_metric_value p, zp_city_full p) \<in> set small"
  by (auto simp: merge_inner_def)

lemma merge_inner_complete:
  "s \<in> set shapes \<Longrightarrow> (zcta_zip_code_str s, m, cf) \<in> set small \<Longrightarrow>
     \<lparr>zp_zip_code_str = zcta_zip_code_str s, zp_geometry = zcta_geometry s,
      zp_metric_value = m, zp_city_full = cf\<rparr> \<in> set (merge_inner shapes small)"
  by (force simp: merge_inner_def)

text \<open>
  C9. \<open>get_zip_polygons_for_metro\<close> has no raising path. When no row of the metric table
  belongs to the selected metro, both results are empty. Every row of the first result
  is a row of the selected metro with a metric value. Every row of the merged table has a
  metric value, a ZIP code that occurs among the boundary polygons, and comes from a row
  of the selected metro; a ZIP code with a metric and no polygon does not occur in it.
  The rows the ZIP view of app.py keeps have a metric value and a ZIP code among the
  polygons.
\<close>

theorem zip_filter_inner_join:
  "(filter (\<lambda>r. zm_city r = selected_city) df_zip_metric = [] \<longrightarrow>
      get_zip_polygons_for_metro selected_city zcta_shapes df_zip_metric = ([], [])) \<and>
   (\<forall>r\<in>set (fst (get_zip_polygons_for_metro selected_city zcta_shapes df_zip_metric)).
      r \<in> set df_zip_metric \<and> zm_city r = selected_city \<and> metric_value r \<noteq> None) \<and>
   (\<forall>p\<in>set (snd (get_zip_polygons_for_metro selected_city zcta_shapes df_zip_metric)).
      zp_metric_value p \<noteq> None \<and>
      zp_zip_code_str p \<in> zcta_zip_code_str ` set zcta_shapes \<and>
      (\<exists>r\<in>set df_zip_metric. zm_city r = selected_city \<and> zip_code_str r = zp_zip_code_str p \<and>
          metric_value r = zp_metric_value p \<and> zm_city_full r = zp_city_full p)) \<and>
   (\<forall>r\<in>set df_zip_metric. zm_city r = selected_city \<and> metric_value r \<noteq> None \<and>
      zip_code_str r \<notin> zcta_zip_code_str ` set zcta_shapes \<longrightarrow>
      zip_code_str r \<notin> zp_zip_code_str ` set (snd (get_zip_polygons_for_metro selected_city zcta_shapes df_zip_metric))) \<and>
   (\<forall>rows. zip_view_rows (fst (get_zip_polygons_for_metro selected_city zcta_shapes df_zip_metric))
                          (snd (get_zip_polygons_for_metro selected_city zcta_shapes df_zip_metric)) = Some rows
      \<longrightarrow> (\<forall>r\<in>set rows. zm_city r = selected_city \<and> metric_value r \<noteq> None \<and>
             zip_code_str r \<in> zcta_zip_code_str ` set zcta_shapes))"
proof (intro conjI)
  show "filter (\<lambda>r. zm_city r = selected_city) df_zip_metric = [] \<longrightarrow>
      get_zip_polygons_for_metro selected_city zcta_shapes df_zip_metric = ([], [])"
    by (simp add: get_zip_polygons_for_metro_def)
  show a: "\<forall>r\<in>set (fst (get_zip_polygons_for_metro selected_city zcta_shapes df_zip_metric)).
      r \<in> set df_zip_metric \<and> zm_city r = selected_city \<and> metric_value r \<noteq> None"
    by (auto simp: get_zip_polygons_for_metro_def Let_def)
  show b: "\<forall>p\<in>set (snd (get_zip_polygons_for_metro selected_city zcta_shapes df_zip_metric)).
      zp_metric_value p \<noteq> None \<and>
      zp_zip_code_str p \<in> zcta_zip_code_str ` set zcta_shapes \<and>
      (\<exists>r\<in>set df_zip_metric. zm_city r = selected_city \<and> zip_code_str r = zp_zip_code_str p \<and>
          metric_value r = zp_metric_value p \<and> zm_city_full r = zp_city_full p)"
  proof
    fix p
    assume "p \<in> set (snd (get_zip_polygons_for_metro selected_city zcta_shapes df_zip_metric))"
    then have "p \<in> set (merge_inner zcta_shapes
       (dedup (map (\<lambda>r. (zip_code_str r, metric_value r, zm_city_full r))
          (filter (\<lambda>r. metric_value r \<noteq> None) (filter (\<lambda>r. zm_city r = selected_city) df_zip_metric)))))"
      by (auto simp: get_zip_polygons_for_metro_def Let_def split: if_splits)
    from merge_inner_mem[OF this] show "zp_metric_value p \<noteq> None \<and>
      zp_zip_code_str p \<in> zcta_zip_code_str ` set zcta_shapes \<and>
      (\<exists>r\<in>set df_zip_metric. zm_city r = selected_city \<and> zip_code_str r = zp_zip_code_str p \<and>
          metric_value r = zp_metric_value p \<and> zm_city_full r = zp_city_full p)"
      by (auto simp: set_dedup intro: rev_image_eqI)
  qed
  from b show "\<forall>r\<in>set df_zip_metric. zm_city r = selected_city \<and> metric_value r \<noteq> None \<and>
      zip_code_str r \<notin> zcta_zip_code_str ` set zcta_shapes \<longrightarrow>
      zip_code_str r \<notin> zp_zip_code_str ` set (snd (get_zip_polygons_for_metro selected_city zcta_shapes df_zip_metric))"
    by force
  show "\<forall>rows. zip_view_rows (fst (get_zip_polygons_for_metro selected_city zcta_shapes df_zip_metric))
                          (snd (get_zip_polygons_for_metro selected_city zcta_shapes df_zip_metric)) = Some rows
      \<longrightarrow> (\<forall>r\<in>set rows. zm_city r = selected_city \<and> metric_value r \<noteq> None \<and>
             zip_code_str r \<in> zcta_zip_code_str ` set zcta_shapes)"
  proof (intro allI impI ballI)
    fix rows r
    assume v: "zip_view_rows (fst (get_zip_polygons_for_metro selected_city zcta_shapes df_zip_metric))
                          (snd (get_zip_polygons_for_metro selected_city zcta_shapes df_zip_metric)) = Some rows"
      and r: "r \<in> set rows"
    from v r have r1: "r \<in> set (fst (get_zip_polygons_for_metro selected_city zcta_shapes df_zip_metric))"
      and r2: "zip_code_str r \<in> zp_zip_code_str ` set (snd (get_zip_polygons_for_metro selected_city zcta_shapes df_zip_metric))"
      by (auto simp: zip_view_rows_def Let_def split: if_splits)
    from r2 b have "zip_code_str r \<in> zcta_zip_code_str ` set zcta_shapes" by auto
    with a r1 show "zm_city r = selected_city \<and> metric_value r \<noteq> None \<and>
             zip_code_str r \<in> zcta_zip_code_str ` set zcta_shapes" by blast
  qed
qed


text \<open>
  Seattle has a ZIP with a polygon, one without, and one without a metric value; Spokane
  has no row.
\<close>

theorem zip_filter_inner_join_witness:
  "get_zip_polygons_for_metro ''seattle''
     [\<lparr>zcta_zip_code_str = ''98101'', zcta_geometry = 11::nat\<rparr>,
      \<lparr>zcta_zip_code_str = ''98102'', zcta_geometry = 12::nat\<rparr>]
     [\<lparr>zm_city = ''seattle'', zip_code_str = ''98101'', metric_value = Some 5, zm_city_full = ''Seattle, WA''\<rparr>,
      \<lparr>zm_city = ''seattle'', zip_code_str = ''98199'', metric_value = Some 7, zm_city_full = ''Seattle, WA''\<rparr>,
      \<lparr>zm_city = ''seattle'', zip_code_str = ''98102'', metric_value = None, zm_city_full = ''Seattle, WA''\<rparr>,
      \<lparr>zm_city = ''tacoma'', zip_code_str = ''98402'', metric_value = Some 3, zm_city_full = ''Tacoma, WA''\<rparr>]
     = ([\<lparr>zm_city = ''seattle'', zip_code_str = ''98101'', metric_value = Some 5, zm_city_full = ''Seattle, WA''\<rparr>,
         \<lparr>zm_city = ''seattle'', zip_code_str = ''98199'', metric_value = Some 7, zm_city_full = ''Seattle, WA''\<rparr>],
        [\<lparr>zp_zip_code_str = ''98101'', zp_geometry = 11::nat, zp_metric_value = Some 5, zp_city_full = ''Seattle, WA''\<rparr>]) \<and>
   zip_view_rows
     [\<lparr>zm_city = ''seattle'', zip_code_str = ''98101'', metric_value = Some 5, zm_city_full = ''Seattle, WA''\<rparr>,
      \<lparr>zm_city = ''seattle'', zip_code_str = ''98199'', metric_value = Some 7, zm_city_full = ''Seattle, WA''\<rparr>]
     [\<lparr>zp_zip_code_str = ''98101'', zp_geometry = 11::nat, zp_metric_value = Some 5, zp_city_full = ''Seattle, WA''\<rparr>]
     = Some [\<lparr>zm_city = ''seattle'', zip_code_str = ''98101'', metric_value = Some 5, zm_city_full = ''Seattle, WA''\<rparr>] \<and>
   get_zip_polygons_for_metro ''spokane''
     [\<lparr>zcta_zip_code_str = ''98101'', zcta_geometry = 11::nat\<rparr>,
      \<lparr>zcta_zip_code_str = ''98102'', zcta_geometry = 12::nat\<rparr>]
     [\<lparr>zm_city = ''seattle'', zip_code_str = ''98101'', metric_value = Some 5, zm_city_full = ''Seattle, WA''\<rparr>,
      \<lparr>zm_city = ''seattle'', zip_code_str = ''98199'', metric_value = Some 7, zm_city_full = ''Seattle, WA''\<rparr>,
      \<lparr>zm_city = ''seattle'', zip_code_str = ''98102'', metric_value = None, zm_city_full = ''Seattle, WA''\<rparr>,
      \<lparr>zm_city = ''tacoma'', zip_code_str = ''98402'', metric_value = Some 3, zm_city_full = ''Tacoma, WA''\<rparr>]
     = ([], [])"
proof -
  let ?shapes = "[\<lparr>zcta_zip_code_str = ''98101'', zcta_geometry = 11::nat\<rparr>,
      \<lparr>zcta_zip_code_str = ''98102'', zcta_geometry = 12::nat\<rparr>]"
  let ?df = "[\<lparr>zm_city = ''seattle'', zip_code_str = ''98101'', metric_value = Some 5, zm_city_full = ''Seattle, WA''\<rparr>,
      \<lparr>zm_city = ''seattle'', zip_code_str = ''98199'', metric_value = Some 7, zm_city_full = ''Seattle, WA''\<rparr>,
      \<lparr>zm_city = ''seattle'', zip_code_str = ''98102'', metric_value = None, zm_city_full = ''Seattle, WA''\<rparr>,
      \<lparr>zm_city = ''tacoma'', zip_code_str = ''98402'', metric_value = Some 3, zm_city_full = ''Tacoma, WA''\<rparr>]"
  have a: "get_zip_polygons_for_metro ''seattle'' ?shapes ?df
     = ([\<lparr>zm_city = ''seattle'', zip_code_str = ''98101'', metric_value = Some 5, zm_city_full = ''Seattle, WA''\<rparr>,
         \<lparr>zm_city = ''seattle'', zip_code_str = ''98199'', metric_value = Some 7, zm_city_full = ''Seattle, WA''\<rparr>],
        [\<lparr>zp_zip_code_str = ''98101'', zp_geometry = 11::nat, zp_metric_value = Some 5, zp_city_full = ''Seattle, WA''\<rparr>])"
    by code_simp
  have b: "zip_view_rows
     [\<lparr>zm_city = ''seattle'', zip_code_str = ''98101'', metric_value = Some 5, zm_city_full = ''Seattle, WA''\<rparr>,
      \<lparr>zm_city = ''seattle'', zip_code_str = ''98199'', metric_value = Some 7, zm_city_full = ''Seattle, WA''\<rparr>]
     [\<lparr>zp_zip_code_str = ''98101'', zp_geometry = 11::nat, zp_metric_value = Some 5, zp_city_full = ''Seattle, WA''\<rparr>]
     = Some [\<lparr>zm_city = ''seattle'', zip_code_str = ''98101'', metric_value = Some 5, zm_city_full = ''Seattle, WA''\<rparr>]"
    by code_simp
  have f: "filter (\<lambda>r. zm_city r = ''spokane'') ?df = []" by simp
  from zip_filter_inner_join[of "''spokane''" ?df ?shapes] f
  have c: "get_zip_polygons_for_metro ''spokane'' ?shapes ?df = ([], [])" by blast
  from a b c show ?thesis by blast
qed

end
